theory Spec2Isabelle
  imports Main "HOL-Library.Word"
begin

unbundle bit_operations_syntax

section \<open>The NextPVR socket wrapper (src/src/Socket.cpp)\<close>

text \<open>
  A shallow embedding of class \<open>NextPVR::Socket\<close>. Every member function becomes a
  function on the object's state; what the operating system answers to each call is an
  explicit argument, so that a property "for every OS behaviour" is a property for every
  value of that argument. Diagnostics (\<open>errormessage\<close>, \<open>kodi::Log\<close>) only write to the
  log sink and are left out.
\<close>

subsection \<open>Platform constants\<close>

text \<open>The two build targets of the \<open>#if defined(TARGET_WINDOWS)\<close> branches.\<close>

datatype target = TARGET_WINDOWS | TARGET_POSIX

type_synonym byte = "8 word"

text \<open>
  Modelled from the spec: \<open>Socket.h\<close> is not among the sources, so the two sentinels it
  takes from the platform headers are fixed here. The spec calls them "the invalid
  sentinel" of a handle and the "negative status" of a failed call; on both targets each
  is the all-ones value, \<open>-1\<close> as a C \<open>int\<close>.
\<close>

definition INVALID_SOCKET :: int where
  "INVALID_SOCKET = - 1"

definition SOCKET_ERROR :: int where
  "SOCKET_ERROR = - 1"

text \<open>The largest value of a C \<open>int\<close>.\<close>

definition INT_MAX :: nat where
  "INT_MAX = 2147483647"

text \<open>
  The error code of the transient "operation would block" condition that the retry loops
  compare against: \<open>WSAEWOULDBLOCK\<close> under \<open>TARGET_WINDOWS\<close>, \<open>EAGAIN\<close> otherwise.
\<close>

fun EWOULDBLOCK :: "target \<Rightarrow> int" where
  "EWOULDBLOCK TARGET_WINDOWS = 10035"
| "EWOULDBLOCK TARGET_POSIX = 11"

subsection \<open>The object\<close>

text \<open>
  \<open>sockaddr_in\<close>: the peer-address structure \<open>_sockaddr\<close>. The enumerations
  \<open>SocketFamily\<close>, \<open>SocketDomain\<close>, \<open>SocketType\<close> and \<open>SocketProtocol\<close> are C enums whose
  enumerators are the platform's integer codes; they are kept as integers.
\<close>

record sockaddr_in =
  sin_family :: int
  sin_port :: "16 word"
  sin_addr :: "32 word"

record Socket =
  sd :: int
  family :: int
  domain :: int
  type :: int
  protocol :: int
  sockaddr :: sockaddr_in

definition is_valid :: "Socket \<Rightarrow> bool" where
  "is_valid s \<longleftrightarrow> sd s \<noteq> INVALID_SOCKET"

subsection \<open>What \<open>::recv\<close> answers\<close>

text \<open>
  One answer of the operating system to a \<open>::recv\<close> call: either the bytes it has for the
  caller at that moment (none at all after an orderly shutdown of the peer), or a failure
  with the error code that \<open>getLastError()\<close> reads afterwards.
\<close>

datatype recv_outcome = Recv "byte list" | RecvFail int

text \<open>
  \<open>::recv(sd, p, len, 0)\<close> copies at most \<open>len\<close> bytes to \<open>p\<close> and returns their number,
  which fits its C \<open>int\<close> result, or \<open>SOCKET_ERROR\<close> and copies nothing.
\<close>

fun recv_bytes :: "32 word \<Rightarrow> recv_outcome \<Rightarrow> byte list" where
  "recv_bytes len (Recv bs) = take (min (unat len) INT_MAX) bs"
| "recv_bytes len (RecvFail e) = []"

fun recv_status :: "32 word \<Rightarrow> recv_outcome \<Rightarrow> int" where
  "recv_status len (Recv bs) = int (length (recv_bytes len (Recv bs)))"
| "recv_status len (RecvFail e) = SOCKET_ERROR"

fun last_error :: "recv_outcome \<Rightarrow> int" where
  "last_error (Recv bs) = 0"
| "last_error (RecvFail e) = e"

text \<open>
  Writing \<open>bs\<close> into the caller's buffer at offset \<open>off\<close> (the pointer \<open>data + receivedsize\<close>).
  The caller owns at least \<open>buffersize\<close> bytes there; the write stays inside them.
\<close>

definition store :: "byte list \<Rightarrow> nat \<Rightarrow> byte list \<Rightarrow> byte list" where
  "store buf off bs = take off buf @ bs @ drop (off + length bs) buf"

subsection \<open>\<open>Socket::receive(char*, unsigned int, unsigned int)\<close>\<close>

text \<open>
  The local variables of the accumulation loop: the buffer contents, the unsigned 32-bit
  counter \<open>receivedsize\<close>, and the number of 50 ms back-off sleeps taken so far.
\<close>

record recv_state =
  data :: "byte list"
  receivedsize :: "32 word"
  sleeps :: nat

text \<open>
  A run of the loop over the answers the operating system has given so far. \<open>Returned r st
  rest\<close>: the function returned \<open>r\<close> with these locals, \<open>rest\<close> being the answers it never
  asked for. \<open>Pending st\<close>: every answer has been used and the loop, with these locals, is
  at its next \<open>::recv\<close> call. A loop that is pending on every finite prefix of an infinite
  sequence of answers never returns on that sequence.
\<close>

datatype recv_run = Pending recv_state | Returned int recv_state "recv_outcome list"

fun receive_loop ::
  "target \<Rightarrow> 32 word \<Rightarrow> 32 word \<Rightarrow> recv_state \<Rightarrow> recv_outcome list \<Rightarrow> recv_run" where
  "receive_loop tgt buffersize minpacketsize st [] =
     (if receivedsize st \<le> minpacketsize \<and> receivedsize st < buffersize
      then Pending st
      else Returned (sint (receivedsize st)) st [])"
| "receive_loop tgt buffersize minpacketsize st (out # rest) =
     (if receivedsize st \<le> minpacketsize \<and> receivedsize st < buffersize then
        (let len = buffersize - receivedsize st;
             status = recv_status len out;
             st1 = st\<lparr>data := store (data st) (unat (receivedsize st)) (recv_bytes len out)\<rparr>
         in if status = SOCKET_ERROR then
              (let lasterror = last_error out
               in if lasterror \<noteq> EWOULDBLOCK tgt then Returned status st1 rest
                  else receive_loop tgt buffersize minpacketsize
                         (st1\<lparr>sleeps := Suc (sleeps st1)\<rparr>) rest)
            else
              (let st2 = st1\<lparr>receivedsize := receivedsize st1 + word_of_int status\<rparr>
               in if receivedsize st2 \<ge> minpacketsize
                  then Returned (sint (receivedsize st2)) st2 rest
                  else receive_loop tgt buffersize minpacketsize st2 rest))
      else Returned (sint (receivedsize st)) st (out # rest))"

definition receive ::
  "target \<Rightarrow> Socket \<Rightarrow> byte list \<Rightarrow> 32 word \<Rightarrow> 32 word \<Rightarrow> recv_outcome list \<Rightarrow> recv_run" where
  "receive tgt s buf buffersize minpacketsize os =
     (let st = \<lparr>data = buf, receivedsize = 0, sleeps = 0\<rparr>
      in if \<not> is_valid s then Returned 0 st os
         else receive_loop tgt buffersize minpacketsize st os)"

subsection \<open>The string overloads of \<open>receive\<close>\<close>

text \<open>
  \<open>data = buf\<close> assigns a \<open>char*\<close> to a \<open>std::string\<close>: the string takes the bytes before the
  first zero byte. Both overloads zero-fill a buffer one byte longer than the capacity they
  pass on, so a zero byte is always found inside it.
\<close>

definition c_string :: "byte list \<Rightarrow> byte list" where
  "c_string buf = takeWhile (\<lambda>b. b \<noteq> 0) buf"

datatype string_run = StringPending | StringReturned int "byte list" "recv_outcome list"

text \<open>\<open>Socket::receive(std::string&, unsigned int)\<close>; \<open>str\<close> is the caller's string before the call.\<close>

definition receive_min ::
  "target \<Rightarrow> Socket \<Rightarrow> byte list \<Rightarrow> 32 word \<Rightarrow> recv_outcome list \<Rightarrow> string_run" where
  "receive_min tgt s str minpacketsize os =
     (if \<not> is_valid s then StringReturned 0 str os
      else
        (let buf = replicate (unat (minpacketsize + 1)) 0
         in case receive tgt s buf minpacketsize minpacketsize os of
              Pending st \<Rightarrow> StringPending
            | Returned status st rest \<Rightarrow> StringReturned status (c_string (data st)) rest))"

text \<open>
  \<open>Socket::receive(std::string&)\<close>. \<open>MAXRECV\<close> is a macro of the absent \<open>Socket.h\<close> and is a
  parameter here.
\<close>

definition receive_any ::
  "target \<Rightarrow> 32 word \<Rightarrow> Socket \<Rightarrow> byte list \<Rightarrow> recv_outcome list \<Rightarrow> string_run" where
  "receive_any tgt MAXRECV s str os =
     (if \<not> is_valid s then StringReturned 0 str os
      else
        (let buf = replicate (unat (MAXRECV + 1)) 0
         in case receive tgt s buf MAXRECV 0 os of
              Pending st \<Rightarrow> StringPending
            | Returned status st rest \<Rightarrow> StringReturned status (c_string (data st)) rest))"

subsection \<open>\<open>Socket::send(const char*, unsigned int)\<close>\<close>

text \<open>
  One answer of the operating system to a \<open>::send\<close> call: the number of bytes it could
  take, or a failure \<open>SendFail e c\<close>, where \<open>e\<close> is the value \<open>errno\<close> holds afterwards and \<open>c\<close> is
  the code \<open>getLastError()\<close> reads afterwards. Under \<open>TARGET_POSIX\<close> \<open>getLastError()\<close> returns
  \<open>errno\<close>, so the two are the same value. Under \<open>TARGET_WINDOWS\<close> it returns
  \<open>WSAGetLastError()\<close>, which is where Winsock reports the failure; \<open>errno\<close> is not written by
  the call and holds whatever it held before. The retry loop of \<open>send\<close> compares \<open>errno\<close>
  itself on both targets; \<open>receive\<close> and the diagnostics of \<open>send\<close> go through
  \<open>getLastError()\<close>.
\<close>

datatype send_outcome = Sent nat | SendFail int int

fun send_status :: "32 word \<Rightarrow> send_outcome \<Rightarrow> int" where
  "send_status len (Sent n) = int (min n (min (unat len) INT_MAX))"
| "send_status len (SendFail e c) = SOCKET_ERROR"

fun send_errno :: "send_outcome \<Rightarrow> int" where
  "send_errno (Sent n) = 0"
| "send_errno (SendFail e c) = e"

fun send_getLastError :: "send_outcome \<Rightarrow> int" where
  "send_getLastError (Sent n) = 0"
| "send_getLastError (SendFail e c) = c"

text \<open>
  The \<open>do ... while (status == SOCKET_ERROR && errno == EAGAIN)\<close> loop; \<open>None\<close> when every
  answer so far was the transient one and the loop is at its next \<open>::send\<close> call.
\<close>

fun send_retry :: "target \<Rightarrow> 32 word \<Rightarrow> send_outcome list \<Rightarrow> (int \<times> send_outcome list) option" where
  "send_retry tgt len [] = None"
| "send_retry tgt len (out # rest) =
     (let status = send_status len out
      in if status = SOCKET_ERROR \<and> send_errno out = EWOULDBLOCK tgt
         then send_retry tgt len rest
         else Some (status, rest))"

subsection \<open>What the operating system answers to the other calls\<close>

text \<open>
  \<open>gethostbyname\<close> returns a \<open>hostent\<close> whose address list is not empty; \<open>h_addr\<close> is its
  first entry.
\<close>

datatype hostent = Hostent (h_addr: "32 word") (h_more: "32 word list")

text \<open>
  The answers are functions of the arguments of the call. \<open>os_accept\<close> and \<open>os_recvfrom\<close>
  also give the address the system stores through the address pointer when the call
  succeeds.
\<close>

record os_env =
  os_WSAStartup :: "int \<times> 16 word"
  os_socket :: "int \<Rightarrow> int \<Rightarrow> int \<Rightarrow> int"
  os_bind :: "int \<Rightarrow> sockaddr_in \<Rightarrow> int"
  os_listen :: "int \<Rightarrow> int"
  os_accept :: "int \<Rightarrow> int \<times> sockaddr_in"
  os_connect :: "int \<Rightarrow> sockaddr_in \<Rightarrow> int"
  os_select_write :: "int \<Rightarrow> int"
  os_select_read :: "int \<Rightarrow> int"
  os_recvfrom :: "int \<Rightarrow> int \<Rightarrow> int \<times> byte list \<times> sockaddr_in"
  os_setsockopt :: "int \<Rightarrow> int \<Rightarrow> int \<Rightarrow> int"
  os_ioctlsocket :: "int \<Rightarrow> int \<Rightarrow> int"
  os_fcntl_getfl :: "int \<Rightarrow> int"
  os_fcntl_setfl :: "int \<Rightarrow> int \<Rightarrow> int"
  os_gethostbyname :: "string \<Rightarrow> hostent option"
  os_inet_addr :: "string \<Rightarrow> 32 word"

text \<open>
  The state outside the object: the static counter \<open>win_usage_count\<close> (a C \<open>int\<close>), the
  number of \<open>WSAStartup\<close> and of \<open>WSACleanup\<close> calls made so far, and the descriptors handed
  to \<open>closesocket\<close> or \<open>::close\<close>, oldest first.
\<close>

record world =
  win_usage_count :: int
  wsa_started :: nat
  wsa_cleaned :: nat
  closed :: "int list"

subsection \<open>Construction\<close>

text \<open>\<open>memset(&_sockaddr, 0, sizeof(_sockaddr))\<close>.\<close>

definition zero_sockaddr :: sockaddr_in where
  "zero_sockaddr = \<lparr>sin_family = 0, sin_port = 0, sin_addr = 0\<rparr>"

definition Socket_init :: "int \<Rightarrow> int \<Rightarrow> int \<Rightarrow> int \<Rightarrow> Socket" where
  "Socket_init fam dmn typ proto =
     \<lparr>sd = INVALID_SOCKET, family = fam, domain = dmn, type = typ, protocol = proto,
      sockaddr = zero_sockaddr\<rparr>"

text \<open>
  Modelled from the spec: the enumerators \<open>af_inet\<close>, \<open>pf_inet\<close>, \<open>sock_stream\<close> and \<open>tcp\<close> of
  the absent \<open>Socket.h\<close>, the defaults "family: inet, domain: inet, type: stream, protocol:
  tcp", with the codes \<open>AF_INET\<close>, \<open>PF_INET\<close>, \<open>SOCK_STREAM\<close> and \<open>IPPROTO_TCP\<close>.
\<close>

definition af_inet :: int where "af_inet = 2"
definition pf_inet :: int where "pf_inet = 2"
definition sock_stream :: int where "sock_stream = 1"
definition tcp :: int where "tcp = 6"

definition Socket_default :: Socket where
  "Socket_default = Socket_init af_inet pf_inet sock_stream tcp"

subsection \<open>Subsystem start-up and the usage counter\<close>

text \<open>\<open>MAKEWORD(2, 2)\<close>.\<close>

definition wVersionRequested :: "16 word" where
  "wVersionRequested = 514"

fun osInit :: "target \<Rightarrow> os_env \<Rightarrow> world \<Rightarrow> bool \<times> world" where
  "osInit TARGET_WINDOWS os w =
     (let w1 = w\<lparr>win_usage_count := win_usage_count w + 1\<rparr>;
          w2 = w1\<lparr>wsa_started := Suc (wsa_started w1)\<rparr>
      in if fst (os_WSAStartup os) \<noteq> 0 then (False, w2)
         else if snd (os_WSAStartup os) \<noteq> wVersionRequested then (False, w2)
         else (True, w2))"
| "osInit TARGET_POSIX os w = (True, w)"

fun osCleanup :: "target \<Rightarrow> world \<Rightarrow> world" where
  "osCleanup TARGET_WINDOWS w =
     (let w1 = w\<lparr>win_usage_count := win_usage_count w - 1\<rparr>
      in if win_usage_count w1 = 0 then w1\<lparr>wsa_cleaned := Suc (wsa_cleaned w1)\<rparr> else w1)"
| "osCleanup TARGET_POSIX w = w"

subsection \<open>Lifecycle operations\<close>

definition close :: "target \<Rightarrow> world \<Rightarrow> Socket \<Rightarrow> bool \<times> world \<times> Socket" where
  "close tgt w s =
     (if is_valid s then
        (let w1 = (if sd s \<noteq> SOCKET_ERROR then w\<lparr>closed := closed w @ [sd s]\<rparr> else w);
             s1 = s\<lparr>sd := INVALID_SOCKET\<rparr>
         in (True, osCleanup tgt w1, s1))
      else (False, w, s))"

definition create :: "target \<Rightarrow> os_env \<Rightarrow> world \<Rightarrow> Socket \<Rightarrow> bool \<times> world \<times> Socket" where
  "create tgt os w s =
     (let (w0, s0) = (if is_valid s then snd (close tgt w s) else (w, s));
          (ok, w1) = osInit tgt os w0
      in if \<not> ok then (False, w1, s0)
         else
           (let s1 = s0\<lparr>sd := os_socket os (family s0) (type s0) (protocol s0)\<rparr>
            in if sd s1 = INVALID_SOCKET then (False, w1, s1) else (True, w1, s1)))"

text \<open>\<open>htons\<close> on a little-endian host: the two bytes of the port swapped.\<close>

definition htons :: "16 word \<Rightarrow> 16 word" where
  "htons p = push_bit 8 p OR drop_bit 8 p"

definition INADDR_ANY :: "32 word" where
  "INADDR_ANY = 0"

definition bind :: "os_env \<Rightarrow> 16 word \<Rightarrow> Socket \<Rightarrow> bool \<times> Socket" where
  "bind os port s =
     (if \<not> is_valid s then (False, s)
      else
        (let a1 = (sockaddr s)\<lparr>sin_family := family s\<rparr>;
             a2 = a1\<lparr>sin_addr := INADDR_ANY\<rparr>;
             a3 = a2\<lparr>sin_port := htons port\<rparr>;
             s1 = s\<lparr>sockaddr := a3\<rparr>;
             bind_return = os_bind os (sd s1) (sockaddr s1)
         in if bind_return = - 1 then (False, s1) else (True, s1)))"

definition listen :: "os_env \<Rightarrow> Socket \<Rightarrow> bool" where
  "listen os s =
     (if \<not> is_valid s then False
      else (let listen_return = os_listen os (sd s)
            in if listen_return = - 1 then False else True))"

text \<open>
  \<open>accept\<close> hands \<open>&_sockaddr\<close> of this object to \<open>::accept\<close>, which stores the address of the
  connecting peer there when it succeeds. The result is this object and \<open>new_socket\<close>.
\<close>

definition accept :: "os_env \<Rightarrow> Socket \<Rightarrow> Socket \<Rightarrow> bool \<times> Socket \<times> Socket" where
  "accept os s new_socket =
     (if \<not> is_valid s then (False, s, new_socket)
      else
        (let (fd, peer) = os_accept os (sd s);
             s1 = (if fd \<noteq> INVALID_SOCKET then s\<lparr>sockaddr := peer\<rparr> else s);
             n1 = new_socket\<lparr>sd := fd\<rparr>
         in if sd n1 \<le> 0 then (False, s1, n1) else (True, s1, n1)))"

subsection \<open>Sending\<close>

text \<open>
  \<open>send\<close> calls neither \<open>closesocket\<close>/\<open>::close\<close> nor \<open>osCleanup\<close>; the state outside the object
  is passed through so that this can be stated.
\<close>

datatype send_run = SendPending | SendReturned int world Socket "send_outcome list"

definition send ::
  "target \<Rightarrow> os_env \<Rightarrow> world \<Rightarrow> Socket \<Rightarrow> 32 word \<Rightarrow> send_outcome list \<Rightarrow> send_run" where
  "send tgt os w s len outs =
     (if \<not> is_valid s then SendReturned 0 w s outs
      else
        (let result = os_select_write os (sd s)
         in if result < 0 then SendReturned 0 w (s\<lparr>sd := INVALID_SOCKET\<rparr>) outs
            else
              (case send_retry tgt len outs of
                 None \<Rightarrow> SendPending
               | Some (status, rest) \<Rightarrow>
                   if status = SOCKET_ERROR
                   then SendReturned status w (s\<lparr>sd := INVALID_SOCKET\<rparr>) rest
                   else SendReturned status w s rest)))"




subsection \<open>Name resolution and connecting\<close>

text \<open>\<open>host.c_str()[0]\<close>: the first character, the terminating zero for the empty string.\<close>

definition first_char :: "string \<Rightarrow> nat" where
  "first_char host = (case host of [] \<Rightarrow> 0 | c # cs \<Rightarrow> of_char c)"

text \<open>\<open>isalpha\<close> in the "C" locale: the 52 ASCII letters.\<close>

definition isalpha :: "nat \<Rightarrow> bool" where
  "isalpha c \<longleftrightarrow> (65 \<le> c \<and> c \<le> 90) \<or> (97 \<le> c \<and> c \<le> 122)"

definition setHostname :: "os_env \<Rightarrow> string \<Rightarrow> Socket \<Rightarrow> bool \<times> Socket" where
  "setHostname os host s =
     (if isalpha (first_char host) then
        (case os_gethostbyname os host of
           None \<Rightarrow> (False, s)
         | Some he \<Rightarrow> (True, s\<lparr>sockaddr := (sockaddr s)\<lparr>sin_addr := h_addr he\<rparr>\<rparr>))
      else (True, s\<lparr>sockaddr := (sockaddr s)\<lparr>sin_addr := os_inet_addr os host\<rparr>\<rparr>))"

definition connect :: "os_env \<Rightarrow> string \<Rightarrow> 16 word \<Rightarrow> Socket \<Rightarrow> bool \<times> Socket" where
  "connect os host port s =
     (if \<not> is_valid s then (False, s)
      else
        (let a1 = (sockaddr s)\<lparr>sin_family := family s\<rparr>;
             a2 = a1\<lparr>sin_port := htons port\<rparr>;
             (ok, s1) = setHostname os host (s\<lparr>sockaddr := a2\<rparr>)
         in if \<not> ok then (False, s1)
            else
              (let status = os_connect os (sd s1) (sockaddr s1)
               in if status = SOCKET_ERROR then (False, s1) else (True, s1))))"

definition reconnect :: "target \<Rightarrow> os_env \<Rightarrow> world \<Rightarrow> Socket \<Rightarrow> bool \<times> world \<times> Socket" where
  "reconnect tgt os w s =
     (if sd s \<noteq> INVALID_SOCKET then (True, w, s)
      else
        (let (ok, w1, s1) = create tgt os w s
         in if \<not> ok then (False, w1, s1)
            else
              (let status = os_connect os (sd s1) (sockaddr s1)
               in if status = SOCKET_ERROR then (False, w1, s1) else (True, w1, s1))))"

subsection \<open>The remaining operations\<close>

definition read_ready :: "os_env \<Rightarrow> Socket \<Rightarrow> bool" where
  "read_ready os s = (let retVal = os_select_read os (sd s) in if retVal > 0 then True else False)"

text \<open>The \<open>int\<close> that \<open>setsockopt\<close> returns is converted to \<open>bool\<close>.\<close>

definition SetSocketOption :: "os_env \<Rightarrow> Socket \<Rightarrow> int \<Rightarrow> int \<Rightarrow> bool" where
  "SetSocketOption os s level option =
     (if sd s = INVALID_SOCKET then False else os_setsockopt os (sd s) level option \<noteq> 0)"

text \<open>
  \<open>set_non_blocking\<close>, one body per target. \<open>O_NONBLOCK\<close> is the flag of the platform's
  \<open>fcntl.h\<close>, a parameter here.
\<close>

fun set_non_blocking :: "target \<Rightarrow> os_env \<Rightarrow> int \<Rightarrow> Socket \<Rightarrow> bool \<Rightarrow> bool" where
  "set_non_blocking TARGET_WINDOWS os O_NONBLOCK s b =
     (let iMode = (if b then 1 else 0)
      in if os_ioctlsocket os (sd s) iMode = - 1 then False else True)"
| "set_non_blocking TARGET_POSIX os O_NONBLOCK s b =
     (let opts = os_fcntl_getfl os (sd s)
      in if opts < 0 then False
         else
           (let opts1 = (if b then opts OR O_NONBLOCK else opts AND NOT O_NONBLOCK)
            in if os_fcntl_setfl os (sd s) opts1 = - 1 then False else True))"

definition recvfrom :: "os_env \<Rightarrow> Socket \<Rightarrow> int \<Rightarrow> int \<times> byte list \<times> sockaddr_in" where
  "recvfrom os s buffersize = os_recvfrom os (sd s) buffersize"


text \<open>
  \<open>BroadcastReceiveFrom\<close> hands \<open>&_sockaddr\<close> to \<open>::recvfrom\<close>, which stores the sender's address
  there when it succeeds. The result is the status, the payload and the object.
\<close>

definition BroadcastReceiveFrom :: "os_env \<Rightarrow> Socket \<Rightarrow> int \<Rightarrow> int \<times> byte list \<times> Socket" where
  "BroadcastReceiveFrom os s payloadLength =
     (let (status, payload, sender) = recvfrom os s payloadLength;
          s1 = (if status \<noteq> SOCKET_ERROR then s\<lparr>sockaddr := sender\<rparr> else s)
      in (status, payload, s1))"

subsection \<open>Kinds of \<open>::recv\<close> answers\<close>


fun fatal :: "target \<Rightarrow> recv_outcome \<Rightarrow> bool" where
  "fatal tgt (Recv bs) = False"
| "fatal tgt (RecvFail e) = (e \<noteq> EWOULDBLOCK tgt)"

subsection \<open>The bytes a sequence of \<open>::recv\<close> answers hands over\<close>

text \<open>
  On a stream connection the bytes that \<open>::send\<close> took on one side are what the \<open>::recv\<close>
  calls of the other side hand over, in order, cut into pieces at will.
\<close>

fun wire :: "recv_outcome list \<Rightarrow> byte list" where
  "wire [] = []"
| "wire (Recv bs # os) = bs @ wire os"
| "wire (RecvFail e # os) = wire os"


subsection \<open>Open connections\<close>


subsection \<open>Sample values\<close>

text \<open>An open TCP connection on descriptor 3, with a zeroed peer address.\<close>

definition sock3 :: Socket where
  "sock3 = \<lparr>sd = 3, family = 2, domain = 2, type = 1, protocol = 6,
            sockaddr = \<lparr>sin_family = 0, sin_port = 0, sin_addr = 0\<rparr>\<rparr>"

text \<open>A connection that is not open and holds the peer address 127.0.0.1, port 80.\<close>

definition sock_closed :: Socket where
  "sock_closed = \<lparr>sd = - 1, family = 2, domain = 2, type = 1, protocol = 6,
            sockaddr = \<lparr>sin_family = 2, sin_port = 20480, sin_addr = 16777343\<rparr>\<rparr>"

text \<open>
  An operating system in which every call succeeds; it resolves \<open>localhost\<close> to 127.0.0.1 and
  no other name, and \<open>inet_addr\<close> answers \<open>INADDR_NONE\<close> to what is not \<open>127.0.0.1\<close>.
\<close>

definition os0 :: os_env where
  "os0 = \<lparr>os_WSAStartup = (0, 514),
          os_socket = (\<lambda>f t p. 3),
          os_bind = (\<lambda>fd a. 0),
          os_listen = (\<lambda>fd. 0),
          os_accept = (\<lambda>fd. (4, \<lparr>sin_family = 2, sin_port = 4660, sin_addr = 16777343\<rparr>)),
          os_connect = (\<lambda>fd a. 0),
          os_select_write = (\<lambda>fd. 1),
          os_select_read = (\<lambda>fd. 1),
          os_recvfrom = (\<lambda>fd n. (2, [104, 105], \<lparr>sin_family = 2, sin_port = 4660, sin_addr = 16777343\<rparr>)),
          os_setsockopt = (\<lambda>fd l opt. 0),
          os_ioctlsocket = (\<lambda>fd mode. 0),
          os_fcntl_getfl = (\<lambda>fd. 2),
          os_fcntl_setfl = (\<lambda>fd opts. 0),
          os_gethostbyname = (\<lambda>h. if h = ''localhost'' then Some (Hostent 16777343 []) else None),
          os_inet_addr = (\<lambda>h. if h = ''127.0.0.1'' then 16777343 else 4294967295)\<rparr>"

text \<open>The state outside the object before anything has been created.\<close>

definition world0 :: world where
  "world0 = \<lparr>win_usage_count = 0, wsa_started = 0, wsa_cleaned = 0, closed = []\<rparr>"

section \<open>Properties\<close>

subsection \<open>Arithmetic of the 32-bit counter\<close>

lemma unat_acc:
  fixes r b :: "32 word"
  assumes "r < b" "k \<le> unat (b - r)"
  shows "unat (r + word_of_int (int k)) = unat r + k"
proof -
  have "unat b < 4294967296" using unsigned_less [of b, where ?'a = nat] by simp
  moreover have "unat r < unat b" using assms(1) by (simp add: word_less_nat_alt)
  moreover have "k \<le> unat b - unat r"
    using assms by (simp add: unat_sub word_le_nat_alt word_less_nat_alt)
  ultimately show ?thesis
    by (simp add: unat_word_ariths unat_of_nat)
qed

lemma acc_le:
  fixes r b :: "32 word"
  assumes "r < b" "k \<le> unat (b - r)"
  shows "r + word_of_int (int k) \<le> b"
proof -
  have "unat r < unat b" using assms(1) by (simp add: word_less_nat_alt)
  moreover have "k \<le> unat b - unat r"
    using assms by (simp add: unat_sub word_le_nat_alt word_less_nat_alt)
  ultimately show ?thesis
    using unat_acc [OF assms] by (simp add: word_le_nat_alt)
qed

lemma sint_le_uint: "sint (r :: 32 word) \<le> uint r"
proof -
  have "- 2147483648 \<le> uint r" by (rule order_trans [of _ 0]) simp_all
  then show ?thesis by (simp add: sint_uint signed_take_bit_int_less_eq_self_iff)
qed

lemma sint_ceiling:
  fixes r b :: "32 word"
  assumes "r \<le> b"
  shows "sint r \<le> uint b"
  using assms sint_le_uint [of r] by (simp add: word_le_def)

lemma recv_status_Recv:
  "recv_status len out \<noteq> SOCKET_ERROR \<Longrightarrow> \<exists>k. recv_status len out = int k \<and> k \<le> unat len"
  by (cases out) (auto simp: SOCKET_ERROR_def)

lemma recv_acc_le:
  fixes r b :: "32 word"
  assumes "r < b" "recv_status (b - r) out \<noteq> SOCKET_ERROR"
  shows "r + word_of_int (recv_status (b - r) out) \<le> b"
proof -
  obtain k where "recv_status (b - r) out = int k" "k \<le> unat (b - r)"
    using recv_status_Recv [OF assms(2)] by blast
  then show ?thesis using acc_le [OF assms(1), of k] by simp
qed

subsection \<open>The accumulation loop and the capacity\<close>

lemma receive_loop_pending:
  "receive_loop tgt b m st os = Pending st' \<Longrightarrow> receivedsize st' < b \<and> receivedsize st' \<le> m"
proof (induction os arbitrary: st)
  case Nil
  then show ?case by (simp split: if_splits)
next
  case (Cons out rest)
  then show ?case by (simp add: Let_def split: if_splits)
qed

lemma receive_loop_returned:
  "receivedsize st \<le> b \<Longrightarrow> receive_loop tgt b m st os = Returned r st' rest \<Longrightarrow>
     receivedsize st' \<le> b \<and> r \<le> uint b \<and>
     (b \<le> m \<longrightarrow> r = SOCKET_ERROR \<or> receivedsize st' = b)"
proof (induction os arbitrary: st)
  case Nil
  then show ?case by (auto simp: sint_ceiling split: if_splits)
next
  case (Cons out rest0)
  show ?case
  proof (cases "receivedsize st \<le> m \<and> receivedsize st < b")
    case False
    with Cons.prems show ?thesis by (auto simp: sint_ceiling)
  next
    case enter: True
    then have lt: "receivedsize st < b" by simp
    show ?thesis
    proof (cases "recv_status (b - receivedsize st) out = SOCKET_ERROR")
      case failed: True
      show ?thesis
      proof (cases "last_error out \<noteq> EWOULDBLOCK tgt")
        case True
        with Cons.prems enter failed
        have r: "r = SOCKET_ERROR" and st': "receivedsize st' = receivedsize st"
          by (auto simp: Let_def)
        have "(- 1 :: int) \<le> uint b" by (rule order_trans [of _ 0]) simp_all
        with r st' Cons.prems(1) show ?thesis by (simp add: SOCKET_ERROR_def)
      next
        case False
        with Cons.prems enter failed
        have "receive_loop tgt b m
                (st\<lparr>data := store (data st) (unat (receivedsize st))
                                 (recv_bytes (b - receivedsize st) out),
                    sleeps := Suc (sleeps st)\<rparr>) rest0 = Returned r st' rest"
          by (simp add: Let_def)
        from Cons.IH [OF _ this] Cons.prems(1) show ?thesis by simp
      qed
    next
      case got: False
      let ?st2 = "st\<lparr>data := store (data st) (unat (receivedsize st))
                                  (recv_bytes (b - receivedsize st) out),
                     receivedsize := receivedsize st
                                       + word_of_int (recv_status (b - receivedsize st) out)\<rparr>"
      have le2: "receivedsize ?st2 \<le> b" using recv_acc_le [OF lt got] by simp
      show ?thesis
      proof (cases "m \<le> receivedsize ?st2")
        case True
        with Cons.prems enter got
        have "r = sint (receivedsize ?st2)" "st' = ?st2" by (auto simp: Let_def)
        with le2 True show ?thesis by (auto simp: sint_ceiling)
      next
        case False
        with Cons.prems enter got
        have "receive_loop tgt b m ?st2 rest0 = Returned r st' rest" by (simp add: Let_def)
        from Cons.IH [OF le2 this] show ?thesis .
      qed
    qed
  qed
qed

text \<open>
  C1. For every call \<open>receive(buffer, capacity, minimumSize)\<close> and every sequence of \<open>::recv\<close>
  answers, the accumulated size never exceeds the capacity: whenever the loop is about to
  read again the size is below the capacity, and when the call has returned the size is at
  most the capacity and so is the returned value. With \<open>minimumSize \<ge> capacity\<close> on an open
  connection, a return that is not the error status happens exactly when the size has
  reached the capacity.
\<close>

theorem receive_capacity_ceiling:
  "(receive tgt s buf buffersize minpacketsize os = Pending st \<longrightarrow>
      receivedsize st < buffersize) \<and>
   (receive tgt s buf buffersize minpacketsize os = Returned r st rest \<longrightarrow>
      receivedsize st \<le> buffersize \<and> r \<le> uint buffersize \<and>
      (is_valid s \<and> buffersize \<le> minpacketsize \<and> r \<noteq> SOCKET_ERROR \<longrightarrow>
         receivedsize st = buffersize))"
proof (intro conjI impI)
  assume "receive tgt s buf buffersize minpacketsize os = Pending st"
  then have "receive_loop tgt buffersize minpacketsize
               \<lparr>data = buf, receivedsize = 0, sleeps = 0\<rparr> os = Pending st"
    by (simp add: receive_def Let_def split: if_splits)
  then show "receivedsize st < buffersize"
    using receive_loop_pending by blast
next
  assume ret: "receive tgt s buf buffersize minpacketsize os = Returned r st rest"
  have both: "receivedsize st \<le> buffersize \<and> r \<le> uint buffersize"
  proof (cases "is_valid s")
    case False
    with ret have "r = 0" "receivedsize st = 0" by (auto simp: receive_def Let_def)
    then show ?thesis by simp
  next
    case True
    with ret have "receive_loop tgt buffersize minpacketsize
               \<lparr>data = buf, receivedsize = 0, sleeps = 0\<rparr> os = Returned r st rest"
      by (simp add: receive_def Let_def)
    from receive_loop_returned [OF _ this] show ?thesis by simp
  qed
  from both show "receivedsize st \<le> buffersize" ..
  from both show "r \<le> uint buffersize" ..
  assume "is_valid s \<and> buffersize \<le> minpacketsize \<and> r \<noteq> SOCKET_ERROR"
  moreover from this ret have "receive_loop tgt buffersize minpacketsize
               \<lparr>data = buf, receivedsize = 0, sleeps = 0\<rparr> os = Returned r st rest"
    by (simp add: receive_def Let_def)
  ultimately show "receivedsize st = buffersize"
    using receive_loop_returned [of "\<lparr>data = buf, receivedsize = 0, sleeps = 0\<rparr>"
        buffersize tgt minpacketsize os r st rest]
    by simp
qed

theorem receive_capacity_ceiling_witness:
  "receive TARGET_POSIX sock3 [0, 0, 0, 0] 4 8 [Recv [1, 2], RecvFail 11, Recv [3, 4, 5]]
     = Returned 4 \<lparr>data = [1, 2, 3, 4], receivedsize = 4, sleeps = 1\<rparr> []
   \<and> is_valid sock3 \<and> (4 :: 32 word) \<le> 8 \<and> (4 :: int) \<noteq> SOCKET_ERROR
   \<and> receivedsize \<lparr>data = [1, 2, 3, 4], receivedsize = 4, sleeps = 1\<rparr> = (4 :: 32 word)
   \<and> (4 :: int) \<le> uint (4 :: 32 word)"
  using receive_capacity_ceiling [of TARGET_POSIX sock3 "[0, 0, 0, 0]" 4 8
      "[Recv [1, 2], RecvFail 11, Recv [3, 4, 5]]"
      "\<lparr>data = [1, 2, 3, 4], receivedsize = 4, sleeps = 1\<rparr>" 4 "[]"]
  by (simp add: receive_def sock3_def is_valid_def INVALID_SOCKET_def SOCKET_ERROR_def
      store_def INT_MAX_def)

subsection \<open>No minimum size\<close>

lemma sint_count:
  assumes "k \<le> INT_MAX"
  shows "sint (word_of_int (int k) :: 32 word) = int k"
proof -
  have "int k < 2147483648" using assms by (simp add: INT_MAX_def)
  then show ?thesis
    by (simp add: signed_of_nat signed_take_bit_int_eq_self)
qed

lemma recv_bytes_le: "length (recv_bytes len out) \<le> INT_MAX"
  by (cases out) simp_all


lemma store_nothing: "store buf off [] = buf"
  by (simp add: store_def)

lemma receive_loop_wouldblock:
  "receivedsize st \<le> m \<and> receivedsize st < b \<Longrightarrow>
   receive_loop tgt b m st (replicate n (RecvFail (EWOULDBLOCK tgt)) @ os)
     = receive_loop tgt b m (st\<lparr>sleeps := sleeps st + n\<rparr>) os"
proof (induction n arbitrary: st)
  case 0
  then show ?case by simp
next
  case (Suc n)
  then show ?case by (simp add: Let_def store_nothing)
qed

lemma receive_loop_first_read:
  assumes "receivedsize st = 0" "0 < b"
  shows "receive_loop tgt b 0 st (Recv bs # rest)
     = Returned (int (length (recv_bytes b (Recv bs))))
         (st\<lparr>data := store (data st) 0 (recv_bytes b (Recv bs)),
             receivedsize := word_of_int (int (length (recv_bytes b (Recv bs))))\<rparr>) rest"
  using assms sint_count [OF recv_bytes_le [of b "Recv bs"]]
  by (simp add: Let_def SOCKET_ERROR_def)

lemma receive_zero_capacity:
  "receive tgt s buf 0 minpacketsize os = Returned 0 \<lparr>data = buf, receivedsize = 0, sleeps = 0\<rparr> os"
  by (cases os) (simp_all add: receive_def Let_def)

text \<open>
  C8. \<open>receive(buffer, capacity, minimumSize)\<close> with \<open>minimumSize == 0\<close> on an open connection
  returns after the first successful \<open>::recv\<close>: after any number \<open>n\<close> of would-block answers
  (each followed by a sleep) the first answer that is not a failure ends the call, which
  returns the number of bytes that read delivered, zero included, and leaves every later
  answer unread.
\<close>

theorem receive_no_minimum:
  assumes "is_valid s" "0 < buffersize"
  shows "receive tgt s buf buffersize 0 (replicate n (RecvFail (EWOULDBLOCK tgt)) @ Recv bs # rest)
     = Returned (int (length (recv_bytes buffersize (Recv bs))))
         \<lparr>data = store buf 0 (recv_bytes buffersize (Recv bs)),
          receivedsize = word_of_int (int (length (recv_bytes buffersize (Recv bs)))),
          sleeps = n\<rparr> rest"
  using assms
  by (simp add: receive_def receive_loop_wouldblock receive_loop_first_read del: receive_loop.simps recv_bytes.simps)


theorem receive_no_minimum_witness:
  "is_valid sock3 \<and> (0 :: 32 word) < 4 \<and>
   receive TARGET_POSIX sock3 [0, 0, 0, 0] 4 0
       (replicate 2 (RecvFail (EWOULDBLOCK TARGET_POSIX)) @ Recv [] # [Recv [7]])
     = Returned 0 \<lparr>data = [0, 0, 0, 0], receivedsize = 0, sleeps = 2\<rparr> [Recv [7]]"
  using receive_no_minimum [of sock3 4 TARGET_POSIX "[0, 0, 0, 0]" 2 "[]" "[Recv [7]]"]
  by (simp add: sock3_def is_valid_def INVALID_SOCKET_def store_def)

text \<open>The string overload without a minimum, \<open>receive(std::string&)\<close>, returns the same way.\<close>

lemma receive_any_first_read:
  assumes "is_valid s" "0 < MAXRECV"
  shows "receive_any tgt MAXRECV s str (replicate n (RecvFail (EWOULDBLOCK tgt)) @ Recv bs # rest)
     = StringReturned (int (length (recv_bytes MAXRECV (Recv bs))))
         (c_string (store (replicate (unat (MAXRECV + 1)) 0) 0 (recv_bytes MAXRECV (Recv bs)))) rest"
  using assms
  by (simp add: receive_any_def receive_def receive_loop_wouldblock receive_loop_first_read
      del: receive_loop.simps recv_bytes.simps)

subsection \<open>When the accumulation loop returns\<close>










text \<open>
  The loop also never returns while every read delivers no byte, and then it does not sleep
  between the reads.
\<close>

lemma receive_loop_zero_reads:
  assumes "receivedsize st < m" "receivedsize st < b"
  shows "receive_loop tgt b m st (replicate n (Recv [])) = Pending st"
proof -
  have le: "receivedsize st \<le> m" and nle: "\<not> m \<le> receivedsize st"
    using assms(1) by simp_all
  show ?thesis
    using assms(2) le nle by (induction n) (simp_all add: Let_def store_nothing SOCKET_ERROR_def)
qed

lemma receive_zero_reads_spin:
  "is_valid s \<Longrightarrow> 0 < minpacketsize \<Longrightarrow> 0 < buffersize \<Longrightarrow>
   receive tgt s buf buffersize minpacketsize (replicate n (Recv []))
     = Pending \<lparr>data = buf, receivedsize = 0, sleeps = 0\<rparr>"
  by (simp add: receive_def receive_loop_zero_reads)

subsection \<open>A failed write\<close>

lemma send_retry_wouldblock:
  "send_retry tgt len (replicate n (SendFail (EWOULDBLOCK tgt) c) @ outs) = send_retry tgt len outs"
  by (induction n) (simp_all add: Let_def)

text \<open>
  What \<open>send\<close> does with the value of \<open>errno\<close>, on either target: on an open connection whose
  readiness poll did not fail, a failure of \<open>::send\<close> that leaves in \<open>errno\<close> another value than
  the would-block code, after any number \<open>n\<close> of failures that leave the would-block code
  there, makes \<open>send\<close> return the raw status \<open>SOCKET_ERROR\<close> with the handle set to the invalid
  sentinel and everything outside the object as it was: no descriptor is closed and the
  usage counter is not touched. While every failure leaves the would-block code in \<open>errno\<close>,
  \<open>send\<close> has not returned. Under \<open>TARGET_POSIX\<close> the value of \<open>errno\<close> is the code the system
  reports.
\<close>

lemma send_errno_failure_poisons:
  assumes "is_valid s" "0 \<le> os_select_write os (sd s)" "e \<noteq> EWOULDBLOCK tgt"
  shows "send tgt os w s len (replicate n (SendFail (EWOULDBLOCK tgt) c) @ SendFail e c' # rest)
           = SendReturned SOCKET_ERROR w (s\<lparr>sd := INVALID_SOCKET\<rparr>) rest \<and>
         \<not> is_valid (s\<lparr>sd := INVALID_SOCKET\<rparr>) \<and>
         send tgt os w s len (replicate n (SendFail (EWOULDBLOCK tgt) c)) = SendPending"
  using assms send_retry_wouldblock [of tgt len n c "[]"]
  by (simp add: send_def send_retry_wouldblock Let_def is_valid_def)

lemma send_posix_retries:
  "is_valid sock3 \<and> 0 \<le> os_select_write os0 (sd sock3) \<and>
   send TARGET_POSIX os0 world0 sock3 5
       (replicate 2 (SendFail (EWOULDBLOCK TARGET_POSIX) (EWOULDBLOCK TARGET_POSIX))
          @ SendFail 104 104 # [Sent 5])
     = SendReturned SOCKET_ERROR world0 (sock3\<lparr>sd := INVALID_SOCKET\<rparr>) [Sent 5] \<and>
   send TARGET_POSIX os0 world0 sock3 5
       (replicate 2 (SendFail (EWOULDBLOCK TARGET_POSIX) (EWOULDBLOCK TARGET_POSIX)))
     = SendPending"
  using send_errno_failure_poisons [of sock3 os0 104 TARGET_POSIX world0 5 2 11 104 "[Sent 5]"]
  by (simp add: sock3_def os0_def is_valid_def INVALID_SOCKET_def)

text \<open>
  C2 at its failing input. Under \<open>TARGET_WINDOWS\<close>, on the open connection \<open>sock3\<close> whose readiness
  poll succeeds, \<open>::send\<close> fails and the system reports the transient would-block condition:
  \<open>getLastError()\<close> reads \<open>WSAEWOULDBLOCK\<close>, and \<open>errno\<close> holds 0. The claim says \<open>send\<close> retries;
  the loop tests \<open>errno\<close>, so \<open>send\<close> returns \<open>SOCKET_ERROR\<close> at once with the handle set to the
  invalid sentinel, and never makes the second \<open>::send\<close> call, which would have taken the 5
  bytes. Under \<open>TARGET_POSIX\<close> the same condition, \<open>EAGAIN\<close> in \<open>errno\<close>, is retried and the 5 bytes
  are sent.
\<close>

theorem send_wouldblock_not_retried:
  "send_getLastError (SendFail 0 10035) = EWOULDBLOCK TARGET_WINDOWS \<and>
   is_valid sock3 \<and> 0 \<le> os_select_write os0 (sd sock3) \<and>
   send TARGET_WINDOWS os0 world0 sock3 5 (SendFail 0 10035 # [Sent 5])
     = SendReturned SOCKET_ERROR world0 (sock3\<lparr>sd := INVALID_SOCKET\<rparr>) [Sent 5] \<and>
   send_getLastError (SendFail 11 11) = EWOULDBLOCK TARGET_POSIX \<and>
   send TARGET_POSIX os0 world0 sock3 5 (SendFail 11 11 # [Sent 5])
     = SendReturned 5 world0 sock3 []"
  by (simp add: send_def sock3_def os0_def is_valid_def INVALID_SOCKET_def SOCKET_ERROR_def
      INT_MAX_def Let_def)

subsection \<open>The usage counter\<close>

lemma osInit_count:
  "win_usage_count (snd (osInit TARGET_WINDOWS os w)) = win_usage_count w + 1"
  by (simp add: Let_def)

lemma create_close_restores:
  assumes "\<not> is_valid s" "create TARGET_WINDOWS os w s = (True, w1, s1)"
  shows "\<exists>w2 s2. close TARGET_WINDOWS w1 s1 = (True, w2, s2) \<and> \<not> is_valid s2 \<and>
           win_usage_count w2 = win_usage_count w \<and> win_usage_count w1 = win_usage_count w + 1"
  using assms
  by (auto simp: create_def close_def Let_def is_valid_def split: if_splits prod.splits)

text \<open>
  C3 at its failing inputs. Under \<open>TARGET_WINDOWS\<close>, a \<open>create()\<close> that fails because \<open>socket()\<close>
  answers \<open>INVALID_SOCKET\<close>, or because \<open>WSAStartup\<close> fails, has already incremented the
  counter; the handle stays invalid, so the following \<open>close()\<close> does nothing and the counter
  stays one above its value before the \<open>create()\<close>.
\<close>

theorem create_failure_counted:
  "create TARGET_WINDOWS (os0\<lparr>os_socket := (\<lambda>f t p. INVALID_SOCKET)\<rparr>) world0 Socket_default
     = (False, world0\<lparr>win_usage_count := 1, wsa_started := 1\<rparr>, Socket_default) \<and>
   create TARGET_WINDOWS (os0\<lparr>os_WSAStartup := (10091, 0)\<rparr>) world0 Socket_default
     = (False, world0\<lparr>win_usage_count := 1, wsa_started := 1\<rparr>, Socket_default) \<and>
   close TARGET_WINDOWS (world0\<lparr>win_usage_count := 1, wsa_started := 1\<rparr>) Socket_default
     = (False, world0\<lparr>win_usage_count := 1, wsa_started := 1\<rparr>, Socket_default)"
  by (simp add: create_def close_def os0_def world0_def Socket_default_def Socket_init_def
      is_valid_def INVALID_SOCKET_def Let_def wVersionRequested_def zero_sockaddr_def
      af_inet_def pf_inet_def sock_stream_def tcp_def)

subsection \<open>A failed connectionless send\<close>






subsection \<open>Name resolution\<close>

text \<open>
  C5. \<open>setHostname(host)\<close> looks at the first character only. If it is a letter, the name is
  resolved: without a record the call fails and the object is as before; with one, the first
  address of the record becomes \<open>sin_addr\<close>. Otherwise \<open>sin_addr\<close> becomes whatever \<open>inet_addr\<close>
  makes of the string, and the call succeeds whatever that is.
\<close>

theorem setHostname_dispatch:
  "(isalpha (first_char host) \<and> os_gethostbyname os host = None \<longrightarrow>
      setHostname os host s = (False, s)) \<and>
   (isalpha (first_char host) \<and> os_gethostbyname os host = Some he \<longrightarrow>
      setHostname os host s = (True, s\<lparr>sockaddr := (sockaddr s)\<lparr>sin_addr := h_addr he\<rparr>\<rparr>)) \<and>
   (\<not> isalpha (first_char host) \<longrightarrow>
      setHostname os host s = (True, s\<lparr>sockaddr := (sockaddr s)\<lparr>sin_addr := os_inet_addr os host\<rparr>\<rparr>))"
  by (simp add: setHostname_def)

theorem setHostname_dispatch_witness:
  "isalpha (first_char ''nosuchhost'') \<and> os_gethostbyname os0 ''nosuchhost'' = None \<and>
   setHostname os0 ''nosuchhost'' sock3 = (False, sock3) \<and>
   isalpha (first_char ''localhost'') \<and> os_gethostbyname os0 ''localhost'' = Some (Hostent 16777343 []) \<and>
   setHostname os0 ''localhost'' sock3
     = (True, sock3\<lparr>sockaddr := \<lparr>sin_family = 0, sin_port = 0, sin_addr = 16777343\<rparr>\<rparr>) \<and>
   \<not> isalpha (first_char ''127.0.0.1'') \<and>
   setHostname os0 ''127.0.0.1'' sock3
     = (True, sock3\<lparr>sockaddr := \<lparr>sin_family = 0, sin_port = 0, sin_addr = 16777343\<rparr>\<rparr>) \<and>
   \<not> isalpha (first_char ''1.2.3.x'') \<and>
   setHostname os0 ''1.2.3.x'' sock3
     = (True, sock3\<lparr>sockaddr := \<lparr>sin_family = 0, sin_port = 0, sin_addr = 4294967295\<rparr>\<rparr>)"
  using setHostname_dispatch [of "''nosuchhost''" os0 sock3 "Hostent 16777343 []"]
    setHostname_dispatch [of "''localhost''" os0 sock3 "Hostent 16777343 []"]
    setHostname_dispatch [of "''127.0.0.1''" os0 sock3 "Hostent 16777343 []"]
    setHostname_dispatch [of "''1.2.3.x''" os0 sock3 "Hostent 16777343 []"]
  by (simp add: os0_def sock3_def isalpha_def first_char_def)

subsection \<open>Reconnecting\<close>

lemma create_sockaddr: "sockaddr (snd (snd (create tgt os w s))) = sockaddr s"
  by (simp add: create_def close_def Let_def split: prod.splits)

lemma create_resolver:
  "create tgt (os\<lparr>os_gethostbyname := g, os_inet_addr := h\<rparr>) w s = create tgt os w s"
  by (cases tgt) (simp_all add: create_def Let_def)

text \<open>
  C6. \<open>reconnect()\<close> on a valid handle succeeds and changes nothing. On an invalid handle it
  runs \<open>create()\<close> and then \<open>::connect\<close> on the new descriptor with the peer address that was
  stored before the call; it succeeds exactly when both do. Its result does not depend on
  what \<open>gethostbyname\<close> or \<open>inet_addr\<close> would answer.
\<close>

theorem reconnect_reuses_address:
  "(is_valid s \<longrightarrow> reconnect tgt os w s = (True, w, s)) \<and>
   (\<not> is_valid s \<longrightarrow>
      (case create tgt os w s of
         (created, w1, s1) \<Rightarrow>
           reconnect tgt os w s
             = (created \<and> os_connect os (sd s1) (sockaddr s) \<noteq> SOCKET_ERROR, w1, s1) \<and>
           sockaddr s1 = sockaddr s)) \<and>
   reconnect tgt (os\<lparr>os_gethostbyname := g, os_inet_addr := h\<rparr>) w s = reconnect tgt os w s"
proof (intro conjI impI)
  assume "is_valid s"
  then show "reconnect tgt os w s = (True, w, s)" by (simp add: reconnect_def is_valid_def)
next
  assume inv: "\<not> is_valid s"
  obtain created w1 s1 where c: "create tgt os w s = (created, w1, s1)" by (cases "create tgt os w s")
  from create_sockaddr [of tgt os w s] c have a: "sockaddr s1 = sockaddr s" by simp
  from inv c a show "case create tgt os w s of
         (created, w1, s1) \<Rightarrow>
           reconnect tgt os w s
             = (created \<and> os_connect os (sd s1) (sockaddr s) \<noteq> SOCKET_ERROR, w1, s1) \<and>
           sockaddr s1 = sockaddr s"
    by (simp add: reconnect_def is_valid_def Let_def)
next
  show "reconnect tgt (os\<lparr>os_gethostbyname := g, os_inet_addr := h\<rparr>) w s = reconnect tgt os w s"
    by (simp add: reconnect_def create_resolver split: prod.splits)
qed


theorem reconnect_reuses_address_witness:
  "is_valid sock3 \<and> reconnect TARGET_POSIX os0 world0 sock3 = (True, world0, sock3) \<and>
   \<not> is_valid sock_closed \<and>
   create TARGET_POSIX os0 world0 sock_closed = (True, world0, sock_closed\<lparr>sd := 3\<rparr>) \<and>
   reconnect TARGET_POSIX os0 world0 sock_closed = (True, world0, sock_closed\<lparr>sd := 3\<rparr>) \<and>
   reconnect TARGET_POSIX (os0\<lparr>os_connect := (\<lambda>fd a. - 1)\<rparr>) world0 sock_closed
     = (False, world0, sock_closed\<lparr>sd := 3\<rparr>) \<and>
   sockaddr (sock_closed\<lparr>sd := 3\<rparr>) = sockaddr sock_closed"
  using reconnect_reuses_address [of sock3 TARGET_POSIX os0 world0]
    reconnect_reuses_address [of sock_closed TARGET_POSIX os0 world0]
    reconnect_reuses_address [of sock_closed TARGET_POSIX "os0\<lparr>os_connect := (\<lambda>fd a. - 1)\<rparr>" world0]
  by (simp add: sock3_def sock_closed_def os0_def world0_def is_valid_def INVALID_SOCKET_def
      SOCKET_ERROR_def create_def Let_def)

subsection \<open>Who writes the peer address\<close>

text \<open>
  C7 as stated fails: \<open>connect\<close> stores the family, the port and the resolved address, and
  \<open>accept\<close> lets \<open>::accept\<close> store the address of the peer that connected.
\<close>

theorem connect_accept_write_sockaddr:
  "sockaddr (snd (connect os0 ''127.0.0.1'' 80 sock3)) \<noteq> sockaddr sock3 \<and>
   sockaddr (fst (snd (accept os0 sock3 Socket_default))) \<noteq> sockaddr sock3"
  by (simp add: connect_def accept_def setHostname_def os0_def sock3_def is_valid_def
      INVALID_SOCKET_def SOCKET_ERROR_def Let_def isalpha_def first_char_def htons_def
      Socket_default_def Socket_init_def)

lemma close_sockaddr: "sockaddr (snd (snd (close tgt w s))) = sockaddr s"
  by (simp add: close_def Let_def)

lemma reconnect_sockaddr: "sockaddr (snd (snd (reconnect tgt os w s))) = sockaddr s"
proof -
  obtain created w1 s1 where c: "create tgt os w s = (created, w1, s1)" by (cases "create tgt os w s")
  with create_sockaddr [of tgt os w s] have "sockaddr s1 = sockaddr s" by simp
  with c show ?thesis by (simp add: reconnect_def Let_def)
qed

lemma send_sockaddr:
  "(case send tgt os w s len outs of
      SendPending \<Rightarrow> True
    | SendReturned r w' s' rest \<Rightarrow> sockaddr s' = sockaddr s)"
  by (simp add: send_def Let_def split: option.splits prod.splits)

text \<open>
  C7, as amended. The peer address is zero after construction. \<open>create\<close>, \<open>close\<close>, \<open>reconnect\<close>
  and \<open>send\<close> leave it as it was, \<open>accept\<close> leaves that of the new connection as it was, and
  \<open>setHostname\<close> changes \<open>sin_addr\<close> only; \<open>bind\<close>, \<open>connect\<close> and \<open>accept\<close> leave it as it was
  when the handle is invalid. The operations that return no object (\<open>listen\<close>, \<open>sendto\<close>, the
  \<open>receive\<close> overloads, \<open>recvfrom\<close>, \<open>read_ready\<close>, \<open>SetSocketOption\<close>, \<open>set_non_blocking\<close>,
  \<open>is_valid\<close>) assign no member.
  The writers are \<open>setHostname\<close>, \<open>bind\<close>, \<open>connect\<close>, \<open>accept\<close> and the two broadcast operations.
\<close>

theorem sockaddr_frame:
  "sockaddr (Socket_init fam dmn typ proto) = zero_sockaddr \<and>
   sockaddr Socket_default = zero_sockaddr \<and>
   sockaddr (snd (snd (create tgt os w s))) = sockaddr s \<and>
   sockaddr (snd (snd (close tgt w s))) = sockaddr s \<and>
   sockaddr (snd (snd (reconnect tgt os w s))) = sockaddr s \<and>
   (case send tgt os w s len outs of
      SendPending \<Rightarrow> True
    | SendReturned r w' s' rest \<Rightarrow> sockaddr s' = sockaddr s) \<and>
   sockaddr (snd (snd (accept os s new_socket))) = sockaddr new_socket \<and>
   sin_family (sockaddr (snd (setHostname os host s))) = sin_family (sockaddr s) \<and>
   sin_port (sockaddr (snd (setHostname os host s))) = sin_port (sockaddr s) \<and>
   (\<not> is_valid s \<longrightarrow>
      sockaddr (snd (bind os port s)) = sockaddr s \<and>
      sockaddr (snd (connect os host port s)) = sockaddr s \<and>
      sockaddr (fst (snd (accept os s new_socket))) = sockaddr s)"
  using send_sockaddr [where tgt = tgt and os = os and w = w and s = s and len = len and outs = outs]
  by (simp add: Socket_init_def Socket_default_def create_sockaddr close_sockaddr
      reconnect_sockaddr accept_def setHostname_def bind_def connect_def Let_def
      split: prod.splits option.splits)

theorem sockaddr_frame_witness:
  "sockaddr (snd (snd (create TARGET_POSIX os0 world0 sock_closed))) = sockaddr sock_closed \<and>
   \<not> is_valid sock_closed \<and>
   sockaddr (snd (bind os0 80 sock_closed)) = sockaddr sock_closed \<and>
   sockaddr (snd (connect os0 ''localhost'' 80 sock_closed)) = sockaddr sock_closed \<and>
   sockaddr (fst (snd (accept os0 sock_closed sock3))) = sockaddr sock_closed"
  using sockaddr_frame [where tgt = TARGET_POSIX and os = os0 and w = world0 and s = sock_closed
      and new_socket = sock3 and host = "''localhost''" and port = 80]
  by (simp add: sock_closed_def is_valid_def INVALID_SOCKET_def)

subsection \<open>Round trip through \<open>send\<close> and the sized string overload of \<open>receive\<close>\<close>

lemma unat_small:
  assumes "n \<le> INT_MAX"
  shows "unat (word_of_nat n :: 32 word) = n"
proof -
  have "n < 4294967296" using assms by (simp add: INT_MAX_def)
  then show ?thesis by (simp add: unat_of_nat)
qed

lemma c_string_terminated: "c_string (xs @ [0]) = c_string xs"
  by (induction xs) (simp_all add: c_string_def)

lemma c_string_no_zero: "0 \<notin> set xs \<Longrightarrow> c_string xs = xs"
  by (simp add: c_string_def takeWhile_eq_all_conv) metis

lemma send_retry_bound:
  "send_retry tgt len outs = Some (r, rest) \<Longrightarrow> r \<le> int INT_MAX"
proof (induction outs)
  case Nil
  then show ?case by simp
next
  case (Cons out outs)
  then show ?case by (cases out) (auto simp: Let_def SOCKET_ERROR_def split: if_splits)
qed

lemma send_bound:
  assumes "send tgt os w a len outs = SendReturned r w' a' rest"
  shows "r \<le> int INT_MAX"
  using assms send_retry_bound [of tgt len outs]
  by (auto simp: send_def Let_def SOCKET_ERROR_def split: if_splits option.splits prod.splits)


lemma word_of_nat_less_small:
  assumes "a \<le> INT_MAX" "b \<le> INT_MAX"
  shows "(word_of_nat a :: 32 word) < word_of_nat b \<longleftrightarrow> a < b"
  using assms by (simp add: word_less_nat_alt unat_small)

lemma word_of_nat_le_small:
  assumes "a \<le> INT_MAX" "b \<le> INT_MAX"
  shows "(word_of_nat a :: 32 word) \<le> word_of_nat b \<longleftrightarrow> a \<le> b"
  using assms by (simp add: word_le_nat_alt unat_small)

lemma store_append:
  "store (pre @ replicate k 0) (length pre) bs = pre @ bs @ replicate (k - length bs) 0"
  by (simp add: store_def)

lemma receive_loop_delivers:
  assumes L: "length payload \<le> INT_MAX"
  shows "pre @ wire rs = payload \<Longrightarrow> \<forall>out \<in> set rs. \<not> fatal tgt out \<Longrightarrow>
         length pre < length payload \<Longrightarrow>
         receivedsize st = word_of_nat (length pre) \<Longrightarrow>
         data st = pre @ replicate (Suc (length payload) - length pre) 0 \<Longrightarrow>
         \<exists>st' rest'. receive_loop tgt (word_of_nat (length payload)) (word_of_nat (length payload)) st (rs @ later)
                        = Returned (int (length payload)) st' rest' \<and>
                      data st' = payload @ [0]"
proof (induction rs arbitrary: pre st)
  case Nil
  then show ?case by simp
next
  case (Cons out rs)
  let ?m = "word_of_nat (length payload) :: 32 word"
  from Cons.prems(3) L have preL: "length pre \<le> INT_MAX" by simp
  have enter: "receivedsize st \<le> ?m \<and> receivedsize st < ?m"
    using Cons.prems(3,4) L preL
    by (simp add: word_of_nat_less_small word_of_nat_le_small)
  have off: "unat (receivedsize st) = length pre"
    using Cons.prems(4) preL by (simp add: unat_small)
  show ?case
  proof (cases out)
    case (RecvFail e)
    with Cons.prems(2) have e: "e = EWOULDBLOCK tgt" by simp
    let ?st1 = "st\<lparr>sleeps := Suc (sleeps st)\<rparr>"
    have "\<exists>st' rest'. receive_loop tgt ?m ?m ?st1 (rs @ later)
                        = Returned (int (length payload)) st' rest' \<and> data st' = payload @ [0]"
      using Cons.IH [of pre ?st1] Cons.prems RecvFail by simp
    with enter e RecvFail show ?thesis by (simp add: Let_def store_nothing)
  next
    case (Recv bs)
    with Cons.prems(1) have split: "pre @ bs @ wire rs = payload" by simp
    then have len: "length pre + length bs + length (wire rs) = length payload"
      by (metis length_append add.assoc)
    have lenw: "?m - receivedsize st = word_of_nat (length payload - length pre)"
      using Cons.prems(3,4) by simp
    have ulen: "unat (?m - receivedsize st) = length payload - length pre"
      using lenw L by (simp add: unat_small)
    have got: "recv_bytes (?m - receivedsize st) (Recv bs) = bs"
      using ulen len L by simp
    let ?st2 = "st\<lparr>data := pre @ bs @ replicate (Suc (length payload) - length pre - length bs) 0,
                   receivedsize := word_of_nat (length (pre @ bs))\<rparr>"
    have step: "receive_loop tgt ?m ?m st ((out # rs) @ later) =
                  (if ?m \<le> receivedsize ?st2 then Returned (sint (receivedsize ?st2)) ?st2 (rs @ later)
                   else receive_loop tgt ?m ?m ?st2 (rs @ later))"
      using enter Recv got off Cons.prems(4,5)
      by (simp add: Let_def SOCKET_ERROR_def store_append del: recv_bytes.simps)
    show ?thesis
    proof (cases "length (pre @ bs) < length payload")
      case True
      then have "\<not> ?m \<le> receivedsize ?st2"
        using L by (simp add: word_of_nat_le_small del: of_nat_add)
      moreover have "\<exists>st' rest'. receive_loop tgt ?m ?m ?st2 (rs @ later)
                        = Returned (int (length payload)) st' rest' \<and> data st' = payload @ [0]"
        using Cons.IH [of "pre @ bs" ?st2] split Cons.prems(2) True by (simp del: of_nat_add)
      ultimately show ?thesis using step by (simp del: of_nat_add)
    next
      case False
      with len have full: "length (pre @ bs) = length payload" by simp
      with split have eq: "pre @ bs = payload" by (metis append_eq_append_conv append_Nil2 append.assoc)
      have "?m \<le> receivedsize ?st2" using full by (simp del: of_nat_add)
      moreover have "sint (receivedsize ?st2) = int (length payload)"
        using full L sint_count [of "length payload"] by (simp del: of_nat_add)
      moreover have "data ?st2 = payload @ [0]"
      proof -
        from full have "Suc (length payload) - length pre - length bs = Suc 0" by simp
        then have "data ?st2 = (pre @ bs) @ [0]" by simp
        with eq show ?thesis by simp
      qed
      ultimately show ?thesis using step by (simp del: of_nat_add)
    qed
  qed
qed


lemma unat_buffer:
  assumes "n \<le> INT_MAX"
  shows "unat (word_of_nat n + 1 :: 32 word) = Suc n"
proof -
  have "Suc n < 4294967296" using assms by (simp add: INT_MAX_def)
  then have "unat (word_of_nat (Suc n) :: 32 word) = Suc n" by (simp only: unat_of_nat) simp
  then show ?thesis by (simp add: add.commute)
qed

text \<open>
  C4, as amended. When \<open>send\<close> was called with the length of the payload and returned that
  length, and the peer's \<open>::recv\<close> answers hand over exactly the payload, in any pieces and
  with would-block failures in between, then \<open>receive(data, minimumSize)\<close> with the payload's
  length on the open peer connection returns that length and leaves in \<open>data\<close> the payload up
  to its first zero byte: the whole payload when it has no zero byte.
\<close>

theorem round_trip_c_string:
  assumes sent: "send tgt os w a len outs = SendReturned (int (length payload)) w' a' rest"
    and size: "unat len = length payload"
    and peer: "is_valid b"
    and link: "wire rs = payload" "\<forall>out \<in> set rs. \<not> fatal tgt out"
    and match: "unat minpacketsize = length payload"
  shows "(\<exists>rest'. receive_min tgt b str minpacketsize (rs @ later)
                   = StringReturned (int (length payload)) (c_string payload) rest') \<and>
         (0 \<notin> set payload \<longrightarrow> c_string payload = payload)"
proof
  from send_bound [OF sent] have L: "length payload \<le> INT_MAX" by simp
  have "word_of_nat (unat minpacketsize) = minpacketsize" by simp
  with match have m: "minpacketsize = word_of_nat (length payload)" by simp
  let ?buf = "replicate (unat (minpacketsize + 1)) (0 :: byte)"
  let ?st = "\<lparr>data = ?buf, receivedsize = 0, sleeps = 0\<rparr>"
  have buf: "?buf = replicate (Suc (length payload)) 0"
    using unat_buffer [OF L] m by simp
  have "\<exists>st' rest'. receive_loop tgt minpacketsize minpacketsize ?st (rs @ later)
          = Returned (int (length payload)) st' rest' \<and> data st' = payload @ [0]"
  proof (cases "payload = []")
    case True
    with m buf show ?thesis by (cases "rs @ later") simp_all
  next
    case False
    then have "length [] < length payload" by simp
    from receive_loop_delivers [OF L _ link(2) this, where st = ?st and later = later] link(1) buf m
    show ?thesis by simp
  qed
  then obtain st' rest' where
    "receive_loop tgt minpacketsize minpacketsize ?st (rs @ later)
       = Returned (int (length payload)) st' rest'" "data st' = payload @ [0]"
    by blast
  with peer show "\<exists>rest'. receive_min tgt b str minpacketsize (rs @ later)
                   = StringReturned (int (length payload)) (c_string payload) rest'"
    by (simp add: receive_min_def receive_def c_string_terminated)
next
  show "0 \<notin> set payload \<longrightarrow> c_string payload = payload"
    by (simp add: c_string_no_zero)
qed

text \<open>
  C4 as stated fails: the payload \<open>A\<close>, zero, \<open>B\<close> is sent whole and handed over whole, \<open>receive\<close>
  returns 3, and the string it leaves is \<open>A\<close> alone.
\<close>

theorem round_trip_cut_at_zero:
  "send TARGET_POSIX os0 world0 sock3 3 [Sent 3] = SendReturned 3 world0 sock3 [] \<and>
   wire [Recv [65, 0, 66]] = [65, 0, 66] \<and>
   receive_min TARGET_POSIX sock3 [] 3 [Recv [65, 0, 66]] = StringReturned 3 [65] [] \<and>
   [65] \<noteq> ([65, 0, 66] :: byte list)"
  by (simp add: send_def receive_min_def receive_def c_string_def store_def os0_def sock3_def
      is_valid_def INVALID_SOCKET_def SOCKET_ERROR_def INT_MAX_def Let_def)

theorem round_trip_c_string_witness:
  "send TARGET_POSIX os0 world0 sock3 2 [Sent 2] = SendReturned (int (length [104, 105 :: byte])) world0 sock3 [] \<and>
   unat (2 :: 32 word) = length [104, 105 :: byte] \<and> is_valid sock3 \<and>
   wire [Recv [104], RecvFail 11, Recv [105]] = [104, 105] \<and>
   \<not> fatal TARGET_POSIX (Recv [104]) \<and> \<not> fatal TARGET_POSIX (RecvFail 11) \<and>
   \<not> fatal TARGET_POSIX (Recv [105]) \<and> 0 \<notin> set [104, 105 :: byte] \<and>
   (\<exists>rest'. receive_min TARGET_POSIX sock3 [] 2 ([Recv [104], RecvFail 11, Recv [105]] @ [Recv [33]])
               = StringReturned 2 [104, 105] rest')"
  using round_trip_c_string [where tgt = TARGET_POSIX and os = os0 and w = world0 and a = sock3
      and len = 2 and outs = "[Sent 2]" and payload = "[104, 105]" and w' = world0 and a' = sock3
      and rest = "[]" and b = sock3 and rs = "[Recv [104], RecvFail 11, Recv [105]]"
      and minpacketsize = 2 and str = "[]" and later = "[Recv [33]]"]
  by (simp add: send_def os0_def sock3_def is_valid_def INVALID_SOCKET_def SOCKET_ERROR_def
      INT_MAX_def Let_def c_string_def)

end
